theory Spec2Isabelle
  imports Main "HOL-Library.Sublist"
begin

section \<open>Projection-mode compiler of pql: a shallow embedding\<close>

text \<open>
  The embedded file is \<^verbatim>\<open>src/pql/projection/matching.py\<close>. It overlays the module
  \<^verbatim>\<open>axonius.pql.matching\<close> (classes \<^verbatim>\<open>BaseAstHandler\<close>, \<^verbatim>\<open>BaseParser\<close>,
  \<^verbatim>\<open>ParseError\<close>, \<^verbatim>\<open>BaseFunc\<close>, \<^verbatim>\<open>BaseField\<close>, ...), which is not part of the
  embedded sources. What the overlay reads from that module is either a parameter
  (record \<open>base\<close>) or a definition marked \<open>Modelled from the spec\<close>.
\<close>

subsection \<open>Backend condition fragments\<close>

text \<open>
  A fragment is a nested Python value: \<^verbatim>\<open>None\<close>, a bool, an int, a str, a list or a
  dict. A dict is kept as the list of its items in insertion order; the code only
  builds dicts whose keys are pairwise different.
\<close>

datatype json =
    JNull
  | JBool bool
  | JNum int
  | JStr string
  | JList "json list"
  | JDict "(json \<times> json) list"

subsection \<open>Errors\<close>

text \<open>
  \<^verbatim>\<open>ParseError(message, col_offset, options)\<close> is the only error class the file
  raises; an argument that a raise site does not pass is \<open>None\<close>. The other
  constructors are the interpreter's own exceptions, which the file never catches
  as \<^verbatim>\<open>ParseError\<close>.
\<close>

datatype error =
    ParseError string "int option" "string list option"
  | TypeError
  | AttributeError
  | IndexError
  | KeyError

fun is_ParseError :: "error \<Rightarrow> bool" where
  "is_ParseError (ParseError m c opts) = True"
| "is_ParseError e = False"

fun message :: "error \<Rightarrow> string" where
  "message (ParseError m c opts) = m"
| "message e = []"

subsection \<open>Expression trees\<close>

text \<open>
  The node classes of Python's \<^verbatim>\<open>ast\<close> for which the file defines a handler, and
  the two further classes that carry the attribute \<^verbatim>\<open>s\<close> which line 38 reads:
  \<^verbatim>\<open>Bytes\<close>, the class of a bytes literal beside \<^verbatim>\<open>Str\<close> and \<^verbatim>\<open>Num\<close>, and
  \<^verbatim>\<open>Constant\<close>, the class of every parsed literal from Python 3.8 on, whose
  attribute \<^verbatim>\<open>s\<close> is its value. The file has no handler for either. Every
  expression node carries its \<^verbatim>\<open>col_offset\<close> first. \<^verbatim>\<open>ast.Num.n\<close> and the value of
  a \<^verbatim>\<open>Constant\<close> are restricted to the values of \<open>const\<close> (no floats). Of the
  operator classes only those with a handler reachable from the file are kept:
  \<^verbatim>\<open>And\<close>, \<^verbatim>\<open>Or\<close>, \<^verbatim>\<open>Eq\<close> and \<^verbatim>\<open>Not\<close>.
\<close>

datatype const =
    CNone
  | CBool bool
  | CInt int
  | CStr string
  | CBytes string

datatype boolop = And | Or

datatype unaryop = Not

datatype cmpop = Eq

datatype node =
    Str int string
  | Num int int
  | Name int string
  | Attribute int node string
  | Dict int "node list" "node list"
  | Call int node "node list"
  | UnaryOp int unaryop node
  | BoolOp int boolop "node list"
  | Compare int node "cmpop list" "node list"
  | Bytes int string
  | Constant int const

fun col_offset :: "node \<Rightarrow> int" where
  "col_offset (Str c s) = c"
| "col_offset (Num c n) = c"
| "col_offset (Name c i) = c"
| "col_offset (Attribute c v a) = c"
| "col_offset (Dict c ks vs) = c"
| "col_offset (Call c f args) = c"
| "col_offset (UnaryOp c op v) = c"
| "col_offset (BoolOp c op vs) = c"
| "col_offset (Compare c l ops cs) = c"
| "col_offset (Bytes c bs) = c"
| "col_offset (Constant c v) = c"

fun class_name :: "node \<Rightarrow> string" where
  "class_name (Str c s) = ''Str''"
| "class_name (Num c n) = ''Num''"
| "class_name (Name c i) = ''Name''"
| "class_name (Attribute c v a) = ''Attribute''"
| "class_name (Dict c ks vs) = ''Dict''"
| "class_name (Call c f args) = ''Call''"
| "class_name (UnaryOp c op v) = ''UnaryOp''"
| "class_name (BoolOp c op vs) = ''BoolOp''"
| "class_name (Compare c l ops cs) = ''Compare''"
| "class_name (Bytes c bs) = ''Bytes''"
| "class_name (Constant c v) = ''Constant''"

subsection \<open>Translation context\<close>

text \<open>
  The three keyword arguments threaded through the handlers. A handler that is
  called with no keyword argument at all receives \<open>None :: kwargs option\<close>; a
  keyword whose value is Python's \<^verbatim>\<open>None\<close> is \<open>None\<close> in its field.
\<close>

record kwargs =
  compared_field :: "string option"
  array_fields :: "string set option"
  complex_fields :: "string set option"

definition kw_compared_field :: "kwargs option \<Rightarrow> string option" where
  "kw_compared_field kw = (case kw of None \<Rightarrow> None | Some k \<Rightarrow> compared_field k)"

definition kw_array_fields :: "kwargs option \<Rightarrow> string set option" where
  "kw_array_fields kw = (case kw of None \<Rightarrow> None | Some k \<Rightarrow> array_fields k)"

subsection \<open>Python primitives\<close>

text \<open>\<^verbatim>\<open>s.split(sep)\<close> for a one-character separator: never the empty list.\<close>

fun split :: "char \<Rightarrow> string \<Rightarrow> string list" where
  "split sep [] = [[]]"
| "split sep (c # cs) =
     (if c = sep then [] # split sep cs
      else (case split sep cs of [] \<Rightarrow> [[c]] | w # ws \<Rightarrow> (c # w) # ws))"

text \<open>\<^verbatim>\<open>field.split('.')[-1]\<close>\<close>

definition last_segment :: "string \<Rightarrow> string" where
  "last_segment p = last (split (CHR ''.'') p)"

text \<open>
  \<^verbatim>\<open>fields and field in fields\<close>, as a truth value: \<^verbatim>\<open>None\<close> and the empty set are
  falsy, and \<^verbatim>\<open>None\<close> is a member of no set of field paths.
\<close>

definition in_fields :: "string option \<Rightarrow> string set option \<Rightarrow> bool" where
  "in_fields fld flds =
     (case flds of
        None \<Rightarrow> False
      | Some S \<Rightarrow> S \<noteq> {} \<and> (case fld of None \<Rightarrow> False | Some p \<Rightarrow> p \<in> S))"

text \<open>The text an f-string renders for an optional string.\<close>

definition format_opt :: "string option \<Rightarrow> string" where
  "format_opt x = (case x of None \<Rightarrow> ''None'' | Some s \<Rightarrow> s)"

text \<open>The spec's reading of a field set: an absent set has no members.\<close>

definition fields_of :: "string set option \<Rightarrow> string set" where
  "fields_of flds = (case flds of None \<Rightarrow> {} | Some S \<Rightarrow> S)"

text \<open>Decimal text of a natural number, as \<^verbatim>\<open>str\<close> and \<^verbatim>\<open>format\<close> render it.\<close>

fun str_nat :: "nat \<Rightarrow> string" where
  "str_nat n =
     (if n < 10 then [char_of (48 + n)]
      else str_nat (n div 10) @ [char_of (48 + n mod 10)])"

declare str_nat.simps [simp del]

definition str_int :: "int \<Rightarrow> string" where
  "str_int n = (if n < 0 then CHR ''-'' # str_nat (nat (- n)) else str_nat (nat n))"

text \<open>
  \<^verbatim>\<open>repr\<close> of a bytes object, which is also its \<^verbatim>\<open>str\<close>: the quote is the
  apostrophe unless the bytes hold an apostrophe and no double quote; the quote
  and the backslash are escaped, tab, line feed and carriage return are written
  \<^verbatim>\<open>\t\<close>, \<^verbatim>\<open>\n\<close>, \<^verbatim>\<open>\r\<close>, and every other byte below 32 or above 126 as
  \<^verbatim>\<open>\x\<close> and two lower-case hexadecimal digits.
\<close>

definition hexdigit :: "nat \<Rightarrow> char" where
  "hexdigit n = ''0123456789abcdef'' ! (n mod 16)"

definition escape_byte :: "char \<Rightarrow> char \<Rightarrow> string" where
  "escape_byte quote c =
     (if c = quote \<or> c = CHR 0x5C then [CHR 0x5C, c]
      else if c = CHR 0x09 then [CHR 0x5C, CHR ''t'']
      else if c = CHR 0x0A then [CHR 0x5C, CHR ''n'']
      else if c = CHR 0x0D then [CHR 0x5C, CHR ''r'']
      else if (of_char c :: nat) < 32 \<or> 127 \<le> (of_char c :: nat)
        then [CHR 0x5C, CHR ''x'', hexdigit ((of_char c :: nat) div 16), hexdigit (of_char c :: nat)]
      else [c])"

definition bytes_repr :: "string \<Rightarrow> string" where
  "bytes_repr bs =
     (let quote = (if CHR 0x27 \<in> set bs \<and> CHR 0x22 \<notin> set bs then CHR 0x22 else CHR 0x27)
      in CHR ''b'' # quote # concat (map (escape_byte quote) bs) @ [quote])"

text \<open>The text an f-string renders for the value of a literal.\<close>

fun format_const :: "const \<Rightarrow> string" where
  "format_const CNone = ''None''"
| "format_const (CBool True) = ''True''"
| "format_const (CBool False) = ''False''"
| "format_const (CInt n) = str_int n"
| "format_const (CStr s) = s"
| "format_const (CBytes bs) = bytes_repr bs"

subsection \<open>Field-type handlers and the absent base module\<close>

datatype field =
    ProjectionGenericField
  | ProjectionStringField
  | ProjectionIntField
  | ProjectionBoolField
  | ProjectionListField
  | ProjectionDictField "field option"

fun field_class :: "field \<Rightarrow> string" where
  "field_class ProjectionGenericField = ''ProjectionGenericField''"
| "field_class ProjectionStringField = ''ProjectionStringField''"
| "field_class ProjectionIntField = ''ProjectionIntField''"
| "field_class ProjectionBoolField = ''ProjectionBoolField''"
| "field_class ProjectionListField = ''ProjectionListField''"
| "field_class (ProjectionDictField f) = ''ProjectionDictField''"

text \<open>
  What the file reads from the base module and cannot be seen in it:
  \<^item> \<open>SPECIAL_VALUES\<close>: the class attribute \<^verbatim>\<open>SPECIAL_VALUES\<close> a field handler
    inherits, as the list of its items;
  \<^item> \<open>get_options\<close>: \<^verbatim>\<open>BaseAstHandler.get_options()\<close> of a handler object, by the
    name of its class;
  \<^item> \<open>handle_field_comparison\<close>: \<^verbatim>\<open>BaseParser.handle_field_comparison\<close>.
\<close>

record base =
  SPECIAL_VALUES :: "field \<Rightarrow> (string \<times> json) list"
  get_options :: "string \<Rightarrow> string list"
  handle_field_comparison :: "node \<Rightarrow> error + json"

text \<open>
  Modelled from the spec: \<^verbatim>\<open>BaseAstHandler.resolve\<close> is not in the embedded file. It
  looks up the method \<^verbatim>\<open>handle_<class of the node>\<close>; by 4.1 of the spec an unmatched
  tag fails, and line 73 of the file recognises that failure by the message prefix
  \<^verbatim>\<open>Unsupported syntax\<close>. This is the error of an unmatched node; a class is taken to
  have the handlers the file gives it.
\<close>

definition unsupported_syntax :: "base \<Rightarrow> string \<Rightarrow> node \<Rightarrow> error" where
  "unsupported_syntax b cls thing =
     ParseError (''Unsupported syntax ('' @ class_name thing @ '').'')
       (Some (col_offset thing)) (Some (get_options b cls))"

text \<open>\<^verbatim>\<open>node.func.id\<close>: only a \<^verbatim>\<open>Name\<close> has the attribute \<^verbatim>\<open>id\<close>.\<close>

fun func_id :: "node \<Rightarrow> error + string" where
  "func_id (Name c i) = Inr i"
| "func_id f = Inl AttributeError"

text \<open>
  \<^verbatim>\<open>node.s\<close>: the text of a \<^verbatim>\<open>Str\<close>, the bytes of a \<^verbatim>\<open>Bytes\<close>, the value of a
  \<^verbatim>\<open>Constant\<close>; no other class has the attribute.
\<close>

fun attr_s :: "node \<Rightarrow> error + const" where
  "attr_s (Str c s) = Inr (CStr s)"
| "attr_s (Bytes c bs) = Inr (CBytes bs)"
| "attr_s (Constant c v) = Inr v"
| "attr_s n = Inl AttributeError"

text \<open>
  Modelled from the spec: \<^verbatim>\<open>BaseFunc.get_arg\<close> is not in the embedded file. By 4.5
  of the spec the second argument of \<^verbatim>\<open>regexMatch\<close> is optional, and lines 231-234
  of the file take an absent argument as a \<^verbatim>\<open>ParseError\<close>.
\<close>

fun get_arg :: "node \<Rightarrow> nat \<Rightarrow> error + node" where
  "get_arg (Call c f args) index =
     (if index < length args then Inr (args ! index)
      else Inl (ParseError (''Missing argument in ''
                  @ (case func_id f of Inr i \<Rightarrow> i | Inl e \<Rightarrow> []) @ ''.'') (Some c) None))"
| "get_arg n index = Inl AttributeError"

text \<open>An argument is a proper part of its call.\<close>

lemma get_arg_size: "get_arg node index = Inr a \<Longrightarrow> size a < size node"
proof (cases node)
  case (Call c f args)
  assume g: "get_arg node index = Inr a"
  with Call have i: "index < length args" and a: "a = args ! index"
    by (auto split: if_splits)
  from i have "args ! index \<in> set args" by simp
  then have "size (args ! index) \<le> size_list size args"
    by (rule size_list_estimation') simp
  with Call a show ?thesis by simp
qed auto

subsection \<open>Leaf handlers of the field types\<close>

text \<open>\<^verbatim>\<open>ProjectionStringField.handle_Str\<close>, lines 281-288; \<open>s\<close> is \<^verbatim>\<open>node.s\<close>.\<close>

definition handle_Str :: "string \<Rightarrow> kwargs option \<Rightarrow> json" where
  "handle_Str s kw =
     (if kw_compared_field kw = None \<or> kw_compared_field kw = Some [] then JStr s
      else
        (let field =
           (if in_fields (kw_compared_field kw) (kw_array_fields kw)
            then ''$$'' @ last_segment (the (kw_compared_field kw))
            else ''$'' @ format_opt (kw_compared_field kw))
         in JDict [(JStr ''$eq'', JList [JStr field, JStr s])]))"

text \<open>\<^verbatim>\<open>ProjectionIntField.handle_Num\<close>, lines 292-297; \<open>n\<close> is \<^verbatim>\<open>node.n\<close>.\<close>

definition handle_Num :: "int \<Rightarrow> kwargs option \<Rightarrow> json" where
  "handle_Num n kw =
     (let field =
        (if in_fields (kw_compared_field kw) (kw_array_fields kw)
         then ''$$'' @ last_segment (the (kw_compared_field kw))
         else ''$'' @ format_opt (kw_compared_field kw))
      in JDict [(JStr ''$eq'', JList [JStr field, JNum n])])"

text \<open>
  \<^verbatim>\<open>ProjectionField.handle_Name\<close>, lines 263-269, on a handler whose
  \<^verbatim>\<open>SPECIAL_VALUES\<close> has the items \<open>sv\<close>.
\<close>

definition handle_Name :: "(string \<times> json) list \<Rightarrow> int \<Rightarrow> string \<Rightarrow> kwargs option \<Rightarrow> error + json" where
  "handle_Name sv c i kw =
     (case map_of sv i of
        Some v \<Rightarrow>
          Inr (JDict [(JStr ''$eq'', JList [JStr (''$'' @ format_opt (kw_compared_field kw)), v])])
      | None \<Rightarrow> Inl (ParseError (''Invalid name: '' @ i) (Some c) (Some (map fst sv))))"

text \<open>
  A dict display \<^verbatim>\<open>{key: value}\<close>: a dict or a list is not hashable and cannot be a
  key.
\<close>

fun single_item :: "json \<Rightarrow> json \<Rightarrow> error + json" where
  "single_item (JDict d) v = Inl TypeError"
| "single_item (JList l) v = Inl TypeError"
| "single_item k v = Inr (JDict [(k, v)])"

text \<open>
  \<^verbatim>\<open>self._field or ProjectionGenericField()\<close>, line 312: the declared element
  handler of a \<^verbatim>\<open>ProjectionDictField\<close> if it was built with one, else the generic
  handler (a handler built with no argument has \<^verbatim>\<open>_field = None\<close>).
\<close>

fun field_or_generic :: "field \<Rightarrow> field" where
  "field_or_generic (ProjectionDictField (Some f)) = f"
| "field_or_generic f = ProjectionGenericField"

subsection \<open>Dispatch on a field-type handler\<close>

text \<open>
  \<^verbatim>\<open>ProjectionAstHandler.handle\<close> (lines 23-24) on a field-type handler \<open>fld\<close>:
  \<^verbatim>\<open>self.resolve(thing)(thing, **kwargs)\<close>. The handlers a class has are those the
  file gives it, its own or inherited inside the file:
  \<^item> \<^verbatim>\<open>handle_Name\<close> on every class (\<^verbatim>\<open>ProjectionField\<close>, line 263);
  \<^item> \<^verbatim>\<open>handle_Str\<close> on \<^verbatim>\<open>ProjectionStringField\<close> and \<^verbatim>\<open>ProjectionGenericField\<close>;
  \<^item> \<^verbatim>\<open>handle_Num\<close> on \<^verbatim>\<open>ProjectionIntField\<close> and \<^verbatim>\<open>ProjectionGenericField\<close>;
  \<^item> \<^verbatim>\<open>handle_Dict\<close> on \<^verbatim>\<open>ProjectionDictField\<close> and \<^verbatim>\<open>ProjectionGenericField\<close>;
  \<^item> \<^verbatim>\<open>handle_Call\<close> on \<^verbatim>\<open>ProjectionGenericField\<close> (line 319), which hands the
    call to \<^verbatim>\<open>ProjectionGenericFunc().handle\<close>.

  \<open>ProjectionFunc_handle\<close> is \<^verbatim>\<open>ProjectionFunc.handle\<close> (lines 191-198) on a
  \<^verbatim>\<open>ProjectionGenericFunc\<close>, whose handlers in the file are \<^verbatim>\<open>handle_exists\<close>
  (lines 200-203, a method that takes no keyword argument, so that a call with
  keywords is a \<^verbatim>\<open>TypeError\<close>) and \<^verbatim>\<open>handle_regexMatch\<close> (lines 208-235).
  \<open>handle_Dict_items\<close> is the list comprehension of lines 312-313 over
  \<^verbatim>\<open>zip(node.keys, node.values)\<close>; \<open>parse_arg\<close> is lines 188-189.
\<close>

function (sequential)
      ProjectionField_handle :: "base \<Rightarrow> field \<Rightarrow> node \<Rightarrow> kwargs option \<Rightarrow> error + json"
  and handle_Dict :: "base \<Rightarrow> field \<Rightarrow> node \<Rightarrow> kwargs option \<Rightarrow> error + json"
  and handle_Dict_items :: "base \<Rightarrow> field \<Rightarrow> node list \<Rightarrow> node list \<Rightarrow> error + json list"
  and ProjectionFunc_handle :: "base \<Rightarrow> node \<Rightarrow> kwargs option \<Rightarrow> error + json"
  and handle_exists :: "base \<Rightarrow> node \<Rightarrow> kwargs option \<Rightarrow> error + json"
  and handle_regexMatch :: "base \<Rightarrow> node \<Rightarrow> kwargs option \<Rightarrow> error + json"
  and parse_arg :: "base \<Rightarrow> node \<Rightarrow> nat \<Rightarrow> field \<Rightarrow> kwargs option \<Rightarrow> error + json"
where
  "ProjectionField_handle b fld (Name c i) kw = handle_Name (SPECIAL_VALUES b fld) c i kw"
| "ProjectionField_handle b ProjectionGenericField (Str c s) kw = Inr (handle_Str s kw)"
| "ProjectionField_handle b ProjectionStringField (Str c s) kw = Inr (handle_Str s kw)"
| "ProjectionField_handle b ProjectionGenericField (Num c n) kw = Inr (handle_Num n kw)"
| "ProjectionField_handle b ProjectionIntField (Num c n) kw = Inr (handle_Num n kw)"
| "ProjectionField_handle b ProjectionGenericField (Dict c ks vs) kw =
     handle_Dict b ProjectionGenericField (Dict c ks vs) kw"
| "ProjectionField_handle b (ProjectionDictField f) (Dict c ks vs) kw =
     handle_Dict b (ProjectionDictField f) (Dict c ks vs) kw"
| "ProjectionField_handle b ProjectionGenericField (Call c f args) kw =
     ProjectionFunc_handle b (Call c f args) kw"
| "ProjectionField_handle b fld thing kw = Inl (unsupported_syntax b (field_class fld) thing)"

| "handle_Dict b fld (Dict c ks vs) kw =
     (case handle_Dict_items b fld ks vs of
        Inl e \<Rightarrow> Inl e
      | Inr items \<Rightarrow> Inr (JDict [(JStr ''$and'', JList items)]))"
| "handle_Dict b fld thing kw = Inl AttributeError"

| "handle_Dict_items b fld (k # ks) (v # vs) =
     (case ProjectionField_handle b ProjectionStringField k None of
        Inl e \<Rightarrow> Inl e
      | Inr key \<Rightarrow>
         (case ProjectionField_handle b (field_or_generic fld) v None of
            Inl e \<Rightarrow> Inl e
          | Inr val \<Rightarrow>
             (case single_item key val of
                Inl e \<Rightarrow> Inl e
              | Inr item \<Rightarrow>
                 (case handle_Dict_items b fld ks vs of
                    Inl e \<Rightarrow> Inl e
                  | Inr items \<Rightarrow> Inr (item # items)))))"
| "handle_Dict_items b fld ks vs = Inr []"

| "ProjectionFunc_handle b (Call c f args) kw =
     (case func_id f of
        Inl e \<Rightarrow> Inl e
      | Inr i \<Rightarrow>
          if i = ''exists'' then handle_exists b (Call c f args) kw
          else if i = ''regexMatch'' then handle_regexMatch b (Call c f args) kw
          else Inl (ParseError (''Unsupported function ('' @ i @ '').'') (Some c)
                     (Some (get_options b ''ProjectionGenericFunc''))))"
| "ProjectionFunc_handle b thing kw = Inl AttributeError"

| "handle_exists b node kw =
     (if kw \<noteq> None then Inl TypeError
      else (case parse_arg b node 0 ProjectionBoolField None of
              Inl e \<Rightarrow> Inl e
            | Inr v \<Rightarrow> Inr (JDict [(JStr ''$exists'', v)])))"

| "handle_regexMatch b node kw =
     (let field =
        (if in_fields (kw_compared_field kw) (kw_array_fields kw)
         then ''$$'' @ last_segment (the (kw_compared_field kw))
         else ''$'' @ format_opt (kw_compared_field kw))
      in case parse_arg b node 0 ProjectionStringField None of
           Inl e \<Rightarrow> Inl e
         | Inr regex \<Rightarrow>
            (case parse_arg b node 1 ProjectionStringField None of
               Inr opts \<Rightarrow>
                 Inr (JDict [(JStr ''$and'',
                   JList [JDict [(JStr ''$eq'',
                            JList [JStr ''string'', JDict [(JStr ''$type'', JStr field)]])],
                          JDict [(JStr ''$regexMatch'',
                            JDict [(JStr ''input'', JStr field), (JStr ''regex'', regex),
                                   (JStr ''options'', opts)])]])])
             | Inl e \<Rightarrow>
                 if is_ParseError e
                 then Inr (JDict [(JStr ''$and'',
                   JList [JDict [(JStr ''$eq'',
                            JList [JStr ''string'', JDict [(JStr ''$type'', JStr field)]])],
                          JDict [(JStr ''$regexMatch'',
                            JDict [(JStr ''input'', JStr field), (JStr ''regex'', regex)])]])])
                 else Inl e))"

| "parse_arg b node index fld kw =
     (case get_arg node index of
        Inl e \<Rightarrow> Inl e
      | Inr a \<Rightarrow> ProjectionField_handle b fld a kw)"
  by pat_completeness auto

termination
  by (relation "measure (\<lambda>x. case x of
        Inl (Inl (b, f, n, kw)) \<Rightarrow> 4 * size n + 3
      | Inl (Inr (Inl (b, f, n, kw))) \<Rightarrow> 4 * size n + 2
      | Inl (Inr (Inr (b, f, ks, vs))) \<Rightarrow> 4 * (size_list size ks + size_list size vs) + 1
      | Inr (Inl (Inl (b, n, kw))) \<Rightarrow> 4 * size n + 2
      | Inr (Inl (Inr (b, n, kw))) \<Rightarrow> 4 * size n + 1
      | Inr (Inr (Inl (b, n, kw))) \<Rightarrow> 4 * size n + 1
      | Inr (Inr (Inr (b, n, i, f, kw))) \<Rightarrow> 4 * size n)")
     (auto dest: get_arg_size)

subsection \<open>Operators and operator maps\<close>

text \<open>
  \<^verbatim>\<open>ProjectionOperator.handle_Eq\<close> (lines 247-250): the three keywords are passed on
  by name, so the field handler always receives keyword arguments.
\<close>

definition handle_Eq :: "base \<Rightarrow> field \<Rightarrow> node \<Rightarrow> kwargs \<Rightarrow> error + json" where
  "handle_Eq b fld node kw =
     ProjectionField_handle b fld node
       (Some \<lparr>compared_field = compared_field kw, array_fields = array_fields kw,
              complex_fields = complex_fields kw\<rparr>)"

text \<open>
  \<^verbatim>\<open>ProjectionField.handle_operator_with_right_and_left\<close> (lines 271-272):
  \<^verbatim>\<open>self.OP_CLASS(self).resolve(operator)(right, **kwargs)\<close>.
\<close>

fun handle_operator_with_right_and_left ::
  "base \<Rightarrow> field \<Rightarrow> cmpop \<Rightarrow> node \<Rightarrow> kwargs \<Rightarrow> error + json" where
  "handle_operator_with_right_and_left b fld Eq right kw = handle_Eq b fld right kw"

text \<open>\<^verbatim>\<open>FieldName\<close> (lines 83-91), the resolver of a comparison's left operand.\<close>

fun FieldName_handle :: "base \<Rightarrow> node \<Rightarrow> error + string" where
  "FieldName_handle b (Str c s) = Inr s"
| "FieldName_handle b (Name c i) = Inr i"
| "FieldName_handle b (Attribute c v a) =
     (case FieldName_handle b v of
        Inl e \<Rightarrow> Inl e
      | Inr s \<Rightarrow> Inr (s @ ''.'' @ a))"
| "FieldName_handle b thing = Inl (unsupported_syntax b ''FieldName'' thing)"

text \<open>
  \<^verbatim>\<open>ProjectionMap.handle\<close> (lines 107-145). \<open>resolve_type\<close> is the method the
  subclass supplies; the keyword \<^verbatim>\<open>compared_field\<close> that the caller may pass is
  replaced by the resolved field.
\<close>

definition ProjectionMap_handle ::
  "base \<Rightarrow> (string \<Rightarrow> field) \<Rightarrow> cmpop \<Rightarrow> node \<Rightarrow> node \<Rightarrow> kwargs \<Rightarrow> error + json" where
  "ProjectionMap_handle b resolve_type operator left right kw =
     (case FieldName_handle b left of
        Inl e \<Rightarrow> Inl e
      | Inr field \<Rightarrow>
         (case handle_operator_with_right_and_left b (resolve_type field) operator right
                 \<lparr>compared_field = Some field, array_fields = array_fields kw,
                  complex_fields = complex_fields kw\<rparr> of
            Inl e \<Rightarrow> Inl e
          | Inr condition \<Rightarrow>
              if in_fields (Some field) (complex_fields kw) \<and> in_fields (Some field) (array_fields kw)
              then Inr (JDict [(JStr ''$and'', JList
                     [JDict [(JStr ''$isArray'', JStr (''$'' @ field))],
                      JDict [(JStr ''$anyElementTrue'',
                        JDict [(JStr ''$map'',
                          JDict [(JStr ''input'',
                                   JDict [(JStr ''$cond'',
                                     JDict [(JStr ''if'', JDict [(JStr ''$isArray'', JStr (''$'' @ field))]),
                                            (JStr ''then'', JStr (''$'' @ field)),
                                            (JStr ''else'', JList [])])]),
                                 (JStr ''as'', JStr (last_segment field)),
                                 (JStr ''in'',
                                   JDict [(JStr ''$cond'',
                                     JDict [(JStr ''if'', condition),
                                            (JStr ''then'', JBool True),
                                            (JStr ''else'', JBool False)])])])])]])])
              else Inr condition))"

text \<open>\<^verbatim>\<open>ProjectionSchemaFreeOperatorMap\<close> (lines 156-161).\<close>

definition ProjectionSchemaFreeOperatorMap_resolve_type :: "string \<Rightarrow> field" where
  "ProjectionSchemaFreeOperatorMap_resolve_type field = ProjectionGenericField"

definition ProjectionSchemaFreeOperatorMap_handle ::
  "base \<Rightarrow> cmpop \<Rightarrow> node \<Rightarrow> node \<Rightarrow> kwargs \<Rightarrow> error + json" where
  "ProjectionSchemaFreeOperatorMap_handle b =
     ProjectionMap_handle b ProjectionSchemaFreeOperatorMap_resolve_type"

text \<open>
  \<^verbatim>\<open>SchemaAwareOperatorMap\<close> (lines 164-179) over the injected dict
  \<^verbatim>\<open>field_to_type\<close>, kept as the list of its items; \<^verbatim>\<open>.keys()\<close> is the list of
  their first components.
\<close>

definition SchemaAwareOperatorMap_resolve_field ::
  "base \<Rightarrow> (string \<times> 't) list \<Rightarrow> node \<Rightarrow> error + string" where
  "SchemaAwareOperatorMap_resolve_field b field_to_type node =
     (case FieldName_handle b node of
        Inl e \<Rightarrow> Inl e
      | Inr field \<Rightarrow>
         (case map_of field_to_type field of
            None \<Rightarrow> Inl (ParseError (''Field not found: '' @ field @ ''.'')
                        (Some (col_offset node)) (Some (map fst field_to_type)))
          | Some t \<Rightarrow> Inr field))"

definition SchemaAwareOperatorMap_resolve_type ::
  "(string \<times> 't) list \<Rightarrow> string \<Rightarrow> error + 't" where
  "SchemaAwareOperatorMap_resolve_type field_to_type field =
     (case map_of field_to_type field of
        None \<Rightarrow> Inl KeyError
      | Some t \<Rightarrow> Inr t)"

subsection \<open>The parser\<close>

text \<open>The first raised error of a sequence of results, or all the values.\<close>

fun collect :: "(error + 'a) list \<Rightarrow> error + 'a list" where
  "collect [] = Inr []"
| "collect (Inl e # rs) = Inl e"
| "collect (Inr v # rs) = (case collect rs of Inl e \<Rightarrow> Inl e | Inr vs \<Rightarrow> Inr (v # vs))"

text \<open>\<^verbatim>\<open>list(operator.items())[0]\<close>: only a dict has \<^verbatim>\<open>items\<close>.\<close>

fun first_item :: "json \<Rightarrow> error + json \<times> json" where
  "first_item (JDict []) = Inl IndexError"
| "first_item (JDict (kv # kvs)) = Inr kv"
| "first_item j = Inl AttributeError"

text \<open>\<^verbatim>\<open>handle_And\<close> and \<^verbatim>\<open>handle_Or\<close>, lines 46-52.\<close>

fun handle_boolop :: "boolop \<Rightarrow> string" where
  "handle_boolop And = ''$and''"
| "handle_boolop Or = ''$or''"

text \<open>
  Modelled from the spec: \<^verbatim>\<open>handle_Not\<close> is inherited from \<^verbatim>\<open>BaseParser\<close> and is
  not in the embedded file; by 4.1 of the spec a negation is wrapped under the key
  \<^verbatim>\<open>$not\<close>.
\<close>

fun handle_unaryop :: "unaryop \<Rightarrow> string" where
  "handle_unaryop Not = ''$not''"

text \<open>
  \<^verbatim>\<open>ProjectionParser.handle_Call\<close>, lines 35-38: the first argument is read only
  through its attribute \<^verbatim>\<open>s\<close>, and the f-string renders whatever that is.
\<close>

fun ProjectionParser_handle_Call :: "node \<Rightarrow> error + json" where
  "ProjectionParser_handle_Call (Call c f args) =
     (case func_id f of
        Inl e \<Rightarrow> Inl e
      | Inr i \<Rightarrow>
          if i \<noteq> ''search'' then Inl (ParseError (''Unsupported method call '' @ i) None None)
          else (case args of
                  [] \<Rightarrow> Inl IndexError
                | a # rest \<Rightarrow>
                   (case attr_s a of
                      Inl e \<Rightarrow> Inl e
                    | Inr v \<Rightarrow>
                        Inr (JDict [(JStr ''$text'',
                               JDict [(JStr ''$search'', JStr (CHR 0x22 # format_const v @ [CHR 0x22])),
                                      (JStr ''$caseSensitive'', JBool False)])]))))"
| "ProjectionParser_handle_Call thing = Inl AttributeError"

text \<open>
  \<^verbatim>\<open>ProjectionParser.handle_Compare\<close>, lines 63-75, for an operator map whose
  \<^verbatim>\<open>handle\<close> is \<open>operator_map\<close>.
\<close>

fun handle_Compare ::
  "base \<Rightarrow> (cmpop \<Rightarrow> node \<Rightarrow> node \<Rightarrow> kwargs \<Rightarrow> error + json) \<Rightarrow> node \<Rightarrow> kwargs \<Rightarrow> error + json" where
  "handle_Compare b operator_map (Compare c left ops comparators) kw =
     (if length comparators \<noteq> 1
      then (if 1 < length comparators
            then Inl (ParseError (''Invalid number of comparators: '' @ str_nat (length comparators))
                        (Some (col_offset (comparators ! 1))) None)
            else Inl IndexError)
      else (case ops of
              [] \<Rightarrow> Inl IndexError
            | operator # rest \<Rightarrow>
               (case operator_map operator left (comparators ! 0) kw of
                  Inr r \<Rightarrow> Inr r
                | Inl err \<Rightarrow>
                    if is_ParseError err \<and> prefix ''Unsupported syntax'' (message err)
                    then handle_field_comparison b (Compare c left ops comparators)
                    else Inl err)))"
| "handle_Compare b operator_map thing kw = Inl AttributeError"

text \<open>
  \<^verbatim>\<open>ProjectionAstHandler.handle\<close> on a \<^verbatim>\<open>ProjectionParser\<close>: \<^verbatim>\<open>handle_Call\<close>,
  \<^verbatim>\<open>handle_BoolOp\<close> (lines 40-44), \<^verbatim>\<open>handle_UnaryOp\<close> (lines 54-61) and
  \<^verbatim>\<open>handle_Compare\<close>.
\<close>

fun ProjectionParser_handle ::
  "base \<Rightarrow> (cmpop \<Rightarrow> node \<Rightarrow> node \<Rightarrow> kwargs \<Rightarrow> error + json) \<Rightarrow> node \<Rightarrow> kwargs \<Rightarrow> error + json" where
  "ProjectionParser_handle b operator_map (Call c f args) kw =
     ProjectionParser_handle_Call (Call c f args)"
| "ProjectionParser_handle b operator_map (BoolOp c op vals) kw =
     (case collect (map (\<lambda>v. ProjectionParser_handle b operator_map v kw) vals) of
        Inl e \<Rightarrow> Inl e
      | Inr rs \<Rightarrow> Inr (JDict [(JStr (handle_boolop op), JList rs)]))"
| "ProjectionParser_handle b operator_map (UnaryOp c op operand) kw =
     (case ProjectionParser_handle b operator_map operand kw of
        Inl e \<Rightarrow> Inl e
      | Inr operator \<Rightarrow>
         (case first_item operator of
            Inl e \<Rightarrow> Inl e
          | Inr (field, val) \<Rightarrow> Inr (JDict [(JStr (handle_unaryop op), JDict [(field, val)])])))"
| "ProjectionParser_handle b operator_map (Compare c left ops comparators) kw =
     handle_Compare b operator_map (Compare c left ops comparators) kw"
| "ProjectionParser_handle b operator_map thing kw =
     Inl (unsupported_syntax b ''ProjectionParser'' thing)"

text \<open>\<^verbatim>\<open>ProjectionSchemaFreeParser\<close>, lines 78-80.\<close>

definition ProjectionSchemaFreeParser_handle :: "base \<Rightarrow> node \<Rightarrow> kwargs \<Rightarrow> error + json" where
  "ProjectionSchemaFreeParser_handle b =
     ProjectionParser_handle b (ProjectionSchemaFreeOperatorMap_handle b)"

subsection \<open>An instance of the base for concrete evaluations\<close>

text \<open>
  Modelled from the spec: the tables and the fallback translator of the base
  module are not in the embedded file. This instance gives every field type the
  boolean and null names of the spec's literals (3 and 8: \<^verbatim>\<open>exists(true)\<close>), no
  options, and a field-to-field translator that returns a marker fragment. The
  general theorems below hold for every base; only closed evaluations use this
  one.
\<close>

definition example_base :: base where
  "example_base =
     \<lparr>SPECIAL_VALUES = (\<lambda>f. [(''None'', JNull), (''null'', JNull),
                               (''False'', JBool False), (''True'', JBool True),
                               (''false'', JBool False), (''true'', JBool True)]),
      get_options = (\<lambda>c. []),
      handle_field_comparison = (\<lambda>n. Inr (JStr ''field comparison''))\<rparr>"

section \<open>Properties\<close>

subsection \<open>Auxiliary facts\<close>

lemma in_fields_Some: "in_fields (Some p) fs = (p \<in> fields_of fs)"
  by (auto simp: in_fields_def fields_of_def split: option.splits)

lemma last_segment_a_b: "last_segment ''a.b'' = ''b''"
  by (simp add: last_segment_def)

subsection \<open>Quantifier elevation\<close>

text \<open>
  C1. For a comparison whose left operand resolves to the field path \<open>P\<close> and whose
  right operand the field-type handler translates to \<open>cond\<close>,
  \<^verbatim>\<open>ProjectionMap.handle\<close> returns the existential template
  \<^verbatim>\<open>{"$and": [{"$isArray": "$P"}, {"$anyElementTrue": {"$map": {"input": {"$cond":
  {"if": {"$isArray": "$P"}, "then": "$P", "else": []}}, "as": last_segment(P), "in":
  {"$cond": {"if": cond, "then": true, "else": false}}}}}]}\<close> when \<open>P\<close> is in both
  \<^verbatim>\<open>array_fields\<close> and \<^verbatim>\<open>complex_fields\<close>, and \<open>cond\<close> unchanged when it is not
  in both.
\<close>

theorem ProjectionMap_handle_elevation:
  assumes "FieldName_handle b left = Inr P"
    and "handle_operator_with_right_and_left b (resolve_type P) operator right
           \<lparr>compared_field = Some P, array_fields = af, complex_fields = cf\<rparr> = Inr cond"
  shows "ProjectionMap_handle b resolve_type operator left right
           \<lparr>compared_field = cfd, array_fields = af, complex_fields = cf\<rparr> =
     Inr (if P \<in> fields_of af \<and> P \<in> fields_of cf
          then JDict [(JStr ''$and'', JList
                 [JDict [(JStr ''$isArray'', JStr (''$'' @ P))],
                  JDict [(JStr ''$anyElementTrue'',
                    JDict [(JStr ''$map'',
                      JDict [(JStr ''input'',
                               JDict [(JStr ''$cond'',
                                 JDict [(JStr ''if'', JDict [(JStr ''$isArray'', JStr (''$'' @ P))]),
                                        (JStr ''then'', JStr (''$'' @ P)),
                                        (JStr ''else'', JList [])])]),
                             (JStr ''as'', JStr (last_segment P)),
                             (JStr ''in'',
                               JDict [(JStr ''$cond'',
                                 JDict [(JStr ''if'', cond),
                                        (JStr ''then'', JBool True),
                                        (JStr ''else'', JBool False)])])])])]])]
          else cond)"
  using assms by (simp add: ProjectionMap_handle_def in_fields_Some)

theorem ProjectionMap_handle_elevation_witness:
  "FieldName_handle example_base (Attribute 0 (Name 0 ''a'') ''b'') = Inr ''a.b''
   \<and> handle_operator_with_right_and_left example_base
        (ProjectionSchemaFreeOperatorMap_resolve_type ''a.b'') Eq (Num 7 5)
        \<lparr>compared_field = Some ''a.b'', array_fields = Some {''a.b''},
         complex_fields = Some {''a.b'', ''c''}\<rparr>
       = Inr (JDict [(JStr ''$eq'', JList [JStr ''$$b'', JNum 5])])
   \<and> ProjectionMap_handle example_base ProjectionSchemaFreeOperatorMap_resolve_type Eq
        (Attribute 0 (Name 0 ''a'') ''b'') (Num 7 5)
        \<lparr>compared_field = None, array_fields = Some {''a.b''},
         complex_fields = Some {''a.b'', ''c''}\<rparr>
       = Inr (JDict [(JStr ''$and'', JList
                 [JDict [(JStr ''$isArray'', JStr ''$a.b'')],
                  JDict [(JStr ''$anyElementTrue'',
                    JDict [(JStr ''$map'',
                      JDict [(JStr ''input'',
                               JDict [(JStr ''$cond'',
                                 JDict [(JStr ''if'', JDict [(JStr ''$isArray'', JStr ''$a.b'')]),
                                        (JStr ''then'', JStr ''$a.b''),
                                        (JStr ''else'', JList [])])]),
                             (JStr ''as'', JStr ''b''),
                             (JStr ''in'',
                               JDict [(JStr ''$cond'',
                                 JDict [(JStr ''if'', JDict [(JStr ''$eq'', JList [JStr ''$$b'', JNum 5])]),
                                        (JStr ''then'', JBool True),
                                        (JStr ''else'', JBool False)])])])])]])])"
proof -
  have f: "FieldName_handle example_base (Attribute 0 (Name 0 ''a'') ''b'') = Inr ''a.b''"
    by simp
  have c: "handle_operator_with_right_and_left example_base
        (ProjectionSchemaFreeOperatorMap_resolve_type ''a.b'') Eq (Num 7 5)
        \<lparr>compared_field = Some ''a.b'', array_fields = Some {''a.b''},
         complex_fields = Some {''a.b'', ''c''}\<rparr>
       = Inr (JDict [(JStr ''$eq'', JList [JStr ''$$b'', JNum 5])])"
    by (simp add: ProjectionSchemaFreeOperatorMap_resolve_type_def handle_Eq_def handle_Num_def
          kw_compared_field_def kw_array_fields_def in_fields_def last_segment_a_b)
  from ProjectionMap_handle_elevation
         [where resolve_type = ProjectionSchemaFreeOperatorMap_resolve_type and cfd = None, OF f c] f c
  show ?thesis
    by (simp add: fields_of_def last_segment_a_b)
qed

subsection \<open>Schema-aware resolution\<close>

text \<open>
  C9. In schema-aware mode, resolving a node whose field path \<open>f\<close> is absent from
  the injected field-to-type mapping fails with the \<^verbatim>\<open>Field not found\<close> error that
  carries the field name, the column offset of the node and, as suggestions, the
  keys of the mapping, which are exactly the declared field paths; a declared
  field path resolves to itself, and \<^verbatim>\<open>resolve_type\<close> gives its declared field
  type.
\<close>

theorem SchemaAwareOperatorMap_resolve_field_lookup:
  assumes "FieldName_handle b node = Inr f"
  shows "(map_of field_to_type f = None \<longrightarrow>
            SchemaAwareOperatorMap_resolve_field b field_to_type node =
              Inl (ParseError (''Field not found: '' @ f @ ''.'') (Some (col_offset node))
                     (Some (map fst field_to_type))))
       \<and> set (map fst field_to_type) = dom (map_of field_to_type)
       \<and> (\<forall>t. map_of field_to_type f = Some t \<longrightarrow>
            SchemaAwareOperatorMap_resolve_field b field_to_type node = Inr f
            \<and> SchemaAwareOperatorMap_resolve_type field_to_type f = Inr t)"
  using assms
  by (simp add: SchemaAwareOperatorMap_resolve_field_def SchemaAwareOperatorMap_resolve_type_def
        dom_map_of_conv_image_fst)

theorem SchemaAwareOperatorMap_resolve_field_lookup_witness:
  "SchemaAwareOperatorMap_resolve_field example_base
      [(''name'', ProjectionStringField), (''adapters.id'', ProjectionIntField)] (Name 4 ''nam'')
     = Inl (ParseError ''Field not found: nam.'' (Some 4) (Some [''name'', ''adapters.id'']))
   \<and> SchemaAwareOperatorMap_resolve_field example_base
      [(''name'', ProjectionStringField), (''adapters.id'', ProjectionIntField)]
      (Attribute 0 (Name 0 ''adapters'') ''id'') = Inr ''adapters.id''
   \<and> SchemaAwareOperatorMap_resolve_type
      [(''name'', ProjectionStringField), (''adapters.id'', ProjectionIntField)] ''adapters.id''
     = Inr ProjectionIntField"
proof -
  let ?m = "[(''name'', ProjectionStringField), (''adapters.id'', ProjectionIntField)]"
  have n: "FieldName_handle example_base (Name 4 ''nam'') = Inr ''nam''" by simp
  have a: "FieldName_handle example_base (Attribute 0 (Name 0 ''adapters'') ''id'') = Inr ''adapters.id''"
    by simp
  have "map_of ?m ''nam'' = None" by simp
  with SchemaAwareOperatorMap_resolve_field_lookup [OF n, of ?m]
  have 1: "SchemaAwareOperatorMap_resolve_field example_base ?m (Name 4 ''nam'')
     = Inl (ParseError ''Field not found: nam.'' (Some 4) (Some [''name'', ''adapters.id'']))"
    by simp
  have "map_of ?m ''adapters.id'' = Some ProjectionIntField" by simp
  with SchemaAwareOperatorMap_resolve_field_lookup [OF a, of ?m]
  have 2: "SchemaAwareOperatorMap_resolve_field example_base ?m
      (Attribute 0 (Name 0 ''adapters'') ''id'') = Inr ''adapters.id''
     \<and> SchemaAwareOperatorMap_resolve_type ?m ''adapters.id'' = Inr ProjectionIntField"
    by blast
  from 1 2 show ?thesis by blast
qed

subsection \<open>Name literals\<close>

text \<open>
  C10. Comparing the field \<open>P\<close> to a name literal that \<^verbatim>\<open>SPECIAL_VALUES\<close> maps to
  \<open>v\<close> produces \<^verbatim>\<open>{"$eq": ["$P", v]}\<close> with the root-scoped reference, whatever
  \<^verbatim>\<open>array_fields\<close> is; for \<open>P\<close> in \<^verbatim>\<open>array_fields\<close> a number literal and a
  string literal produce the alias-scoped reference \<^verbatim>\<open>"$$" + last_segment(P)\<close>
  instead.
\<close>

theorem handle_Name_root_scoped:
  assumes "map_of (SPECIAL_VALUES b fld) i = Some v"
  shows "handle_operator_with_right_and_left b fld Eq (Name c i)
           \<lparr>compared_field = Some P, array_fields = af, complex_fields = cf\<rparr>
         = Inr (JDict [(JStr ''$eq'', JList [JStr (''$'' @ P), v])])
       \<and> (P \<in> fields_of af \<longrightarrow>
            handle_operator_with_right_and_left b ProjectionGenericField Eq (Num c n)
              \<lparr>compared_field = Some P, array_fields = af, complex_fields = cf\<rparr>
            = Inr (JDict [(JStr ''$eq'', JList [JStr (''$$'' @ last_segment P), JNum n])]))
       \<and> (P \<in> fields_of af \<and> P \<noteq> [] \<longrightarrow>
            handle_operator_with_right_and_left b ProjectionGenericField Eq (Str c s)
              \<lparr>compared_field = Some P, array_fields = af, complex_fields = cf\<rparr>
            = Inr (JDict [(JStr ''$eq'', JList [JStr (''$$'' @ last_segment P), JStr s])]))"
  using assms
  by (simp add: handle_Eq_def handle_Name_def handle_Num_def handle_Str_def kw_compared_field_def
        kw_array_fields_def format_opt_def in_fields_Some)

theorem handle_Name_root_scoped_witness:
  "map_of (SPECIAL_VALUES example_base ProjectionGenericField) ''None'' = Some JNull
   \<and> handle_operator_with_right_and_left example_base ProjectionGenericField Eq (Name 7 ''None'')
        \<lparr>compared_field = Some ''a.b'', array_fields = Some {''a.b''}, complex_fields = None\<rparr>
      = Inr (JDict [(JStr ''$eq'', JList [JStr ''$a.b'', JNull])])
   \<and> handle_operator_with_right_and_left example_base ProjectionGenericField Eq (Num 7 3)
        \<lparr>compared_field = Some ''a.b'', array_fields = Some {''a.b''}, complex_fields = None\<rparr>
      = Inr (JDict [(JStr ''$eq'', JList [JStr ''$$b'', JNum 3])])
   \<and> handle_operator_with_right_and_left example_base ProjectionGenericField Eq (Str 7 ''x'')
        \<lparr>compared_field = Some ''a.b'', array_fields = Some {''a.b''}, complex_fields = None\<rparr>
      = Inr (JDict [(JStr ''$eq'', JList [JStr ''$$b'', JStr ''x''])])"
proof -
  have h: "map_of (SPECIAL_VALUES example_base ProjectionGenericField) ''None'' = Some JNull"
    by (simp add: example_base_def)
  from handle_Name_root_scoped [OF h, of 7 "''a.b''" "Some {''a.b''}" None 3 "''x''"] h
  show ?thesis by (simp add: fields_of_def last_segment_a_b)
qed

subsection \<open>regexMatch\<close>

text \<open>
  C7. On a compared field \<open>F\<close> that is not in \<^verbatim>\<open>array_fields\<close>,
  \<^verbatim>\<open>F == regexMatch(pat)\<close> compiles to \<^verbatim>\<open>{"$and": [{"$eq": ["string", {"$type":
  "$F"}]}, {"$regexMatch": {"input": "$F", "regex": pat}}]}\<close> with no key
  \<^verbatim>\<open>options\<close>, and a second string argument adds the key \<^verbatim>\<open>options\<close> with that
  value to the \<^verbatim>\<open>$regexMatch\<close> document.
\<close>

theorem regexMatch_fragment:
  assumes "FieldName_handle b left = Inr F" and "F \<notin> fields_of af"
  shows "ProjectionSchemaFreeOperatorMap_handle b Eq left
           (Call c (Name c' ''regexMatch'') [Str c1 pat])
           \<lparr>compared_field = cfd, array_fields = af, complex_fields = cf\<rparr>
         = Inr (JDict [(JStr ''$and'',
                  JList [JDict [(JStr ''$eq'',
                           JList [JStr ''string'', JDict [(JStr ''$type'', JStr (''$'' @ F))]])],
                         JDict [(JStr ''$regexMatch'',
                           JDict [(JStr ''input'', JStr (''$'' @ F)), (JStr ''regex'', JStr pat)])]])])
       \<and> ProjectionSchemaFreeOperatorMap_handle b Eq left
           (Call c (Name c' ''regexMatch'') (Str c1 pat # Str c2 opts # rest))
           \<lparr>compared_field = cfd, array_fields = af, complex_fields = cf\<rparr>
         = Inr (JDict [(JStr ''$and'',
                  JList [JDict [(JStr ''$eq'',
                           JList [JStr ''string'', JDict [(JStr ''$type'', JStr (''$'' @ F))]])],
                         JDict [(JStr ''$regexMatch'',
                           JDict [(JStr ''input'', JStr (''$'' @ F)), (JStr ''regex'', JStr pat),
                                  (JStr ''options'', JStr opts)])]])])"
  using assms
  by (simp add: ProjectionSchemaFreeOperatorMap_handle_def ProjectionMap_handle_def
        ProjectionSchemaFreeOperatorMap_resolve_type_def handle_Eq_def handle_Str_def
        kw_compared_field_def kw_array_fields_def format_opt_def in_fields_Some Let_def)

theorem regexMatch_fragment_witness:
  "FieldName_handle example_base (Name 0 ''F'') = Inr ''F'' \<and> ''F'' \<notin> fields_of (Some {''G''})
   \<and> ProjectionSchemaFreeOperatorMap_handle example_base Eq (Name 0 ''F'')
           (Call 5 (Name 5 ''regexMatch'') [Str 16 ''^a''])
           \<lparr>compared_field = None, array_fields = Some {''G''}, complex_fields = Some {''G''}\<rparr>
         = Inr (JDict [(JStr ''$and'',
                  JList [JDict [(JStr ''$eq'',
                           JList [JStr ''string'', JDict [(JStr ''$type'', JStr ''$F'')]])],
                         JDict [(JStr ''$regexMatch'',
                           JDict [(JStr ''input'', JStr ''$F''), (JStr ''regex'', JStr ''^a'')])]])])
   \<and> ProjectionSchemaFreeOperatorMap_handle example_base Eq (Name 0 ''F'')
           (Call 5 (Name 5 ''regexMatch'') [Str 16 ''^a'', Str 22 ''i''])
           \<lparr>compared_field = None, array_fields = Some {''G''}, complex_fields = Some {''G''}\<rparr>
         = Inr (JDict [(JStr ''$and'',
                  JList [JDict [(JStr ''$eq'',
                           JList [JStr ''string'', JDict [(JStr ''$type'', JStr ''$F'')]])],
                         JDict [(JStr ''$regexMatch'',
                           JDict [(JStr ''input'', JStr ''$F''), (JStr ''regex'', JStr ''^a''),
                                  (JStr ''options'', JStr ''i'')])]])])"
proof -
  have f: "FieldName_handle example_base (Name 0 ''F'') = Inr ''F''" by simp
  have a: "''F'' \<notin> fields_of (Some {''G''})" by (simp add: fields_of_def)
  from regexMatch_fragment [OF f a, of 5 5 16 "''^a''" None "Some {''G''}" 22 "''i''" "[]"] f a
  show ?thesis by simp
qed

subsection \<open>Reference form at leaf sites\<close>

text \<open>
  A string literal and a number literal render the compared field \<open>P\<close> as
  \<^verbatim>\<open>"$$" + last_segment(P)\<close> when \<open>P\<close> is in \<^verbatim>\<open>array_fields\<close> and as \<^verbatim>\<open>"$" + P\<close>
  otherwise.
\<close>

lemma reference_form_literals:
  assumes "P \<noteq> []"
  shows "handle_Str s (Some \<lparr>compared_field = Some P, array_fields = af, complex_fields = cf\<rparr>)
           = JDict [(JStr ''$eq'',
               JList [JStr (if P \<in> fields_of af then ''$$'' @ last_segment P else ''$'' @ P), JStr s])]"
    and "handle_Num n (Some \<lparr>compared_field = Some P, array_fields = af, complex_fields = cf\<rparr>)
           = JDict [(JStr ''$eq'',
               JList [JStr (if P \<in> fields_of af then ''$$'' @ last_segment P else ''$'' @ P), JNum n])]"
  using assms
  by (simp_all add: handle_Str_def handle_Num_def kw_compared_field_def kw_array_fields_def
        format_opt_def in_fields_Some)

text \<open>
  C2. The reference-form rule asks every leaf site to render the compared field
  \<open>P\<close> as \<^verbatim>\<open>"$$" + last_segment(P)\<close> when \<open>P\<close> is in \<^verbatim>\<open>array_fields\<close>. The
  name-literal site does not: for \<^verbatim>\<open>a.b == true\<close> with \<^verbatim>\<open>a.b\<close> in \<^verbatim>\<open>array_fields\<close>
  the code renders the root-scoped \<^verbatim>\<open>"$a.b"\<close>, while the number literal of
  \<^verbatim>\<open>a.b == 1\<close> is rendered under the same context with the alias-scoped \<^verbatim>\<open>"$$b"\<close>.
\<close>

theorem handle_Name_array_field_reference:
  "ProjectionSchemaFreeOperatorMap_handle example_base Eq
     (Attribute 0 (Name 0 ''a'') ''b'') (Name 7 ''true'')
     \<lparr>compared_field = None, array_fields = Some {''a.b''}, complex_fields = None\<rparr>
   = Inr (JDict [(JStr ''$eq'', JList [JStr ''$a.b'', JBool True])])
   \<and> ProjectionSchemaFreeOperatorMap_handle example_base Eq
     (Attribute 0 (Name 0 ''a'') ''b'') (Num 7 1)
     \<lparr>compared_field = None, array_fields = Some {''a.b''}, complex_fields = None\<rparr>
   = Inr (JDict [(JStr ''$eq'', JList [JStr ''$$b'', JNum 1])])"
  by (simp add: ProjectionSchemaFreeOperatorMap_handle_def ProjectionMap_handle_def
        ProjectionSchemaFreeOperatorMap_resolve_type_def handle_Eq_def handle_Name_def
        handle_Num_def example_base_def kw_compared_field_def kw_array_fields_def format_opt_def
        in_fields_def last_segment_a_b)

subsection \<open>The fallback of a comparison\<close>

text \<open>
  C3 (as amended). For a comparison with one comparator, \<^verbatim>\<open>handle_Compare\<close>
  returns what the operator map returns when it succeeds; when it fails, the
  field-to-field translator is called exactly when the failure is a
  \<^verbatim>\<open>ParseError\<close> whose message text starts with \<^verbatim>\<open>Unsupported syntax\<close>, and
  every other failure propagates unchanged. The branch is on the text of the
  message: there is one error class and no tag for a field reference on the right.
\<close>

theorem handle_Compare_fallback_on_message_prefix:
  "handle_Compare b operator_map (Compare c left (operator # rest) [right]) kw =
     (case operator_map operator left right kw of
        Inr r \<Rightarrow> Inr r
      | Inl err \<Rightarrow>
          if \<exists>m off opts. err = ParseError m off opts \<and> prefix ''Unsupported syntax'' m
          then handle_field_comparison b (Compare c left (operator # rest) [right])
          else Inl err)"
proof (cases "operator_map operator left right kw")
  case (Inl err)
  then show ?thesis by (cases err) auto
next
  case (Inr r)
  then show ?thesis by simp
qed

text \<open>
  The claim as stated fails for \<^verbatim>\<open>a == b\<close>: the right-hand side is a field
  reference, the operator map fails with \<^verbatim>\<open>Invalid name: b\<close>, and that error
  propagates instead of the fallback being taken.
\<close>

theorem handle_Compare_name_on_the_right_counterexample:
  "ProjectionSchemaFreeParser_handle example_base
     (Compare 0 (Name 0 ''a'') [Eq] [Name 5 ''b''])
     \<lparr>compared_field = None, array_fields = None, complex_fields = None\<rparr>
   = Inl (ParseError ''Invalid name: b'' (Some 5)
            (Some [''None'', ''null'', ''False'', ''True'', ''false'', ''true'']))
   \<and> ProjectionSchemaFreeParser_handle example_base
     (Compare 0 (Name 0 ''a'') [Eq] [Name 5 ''b''])
     \<lparr>compared_field = None, array_fields = None, complex_fields = None\<rparr>
   \<noteq> handle_field_comparison example_base (Compare 0 (Name 0 ''a'') [Eq] [Name 5 ''b''])"
  by (simp add: ProjectionSchemaFreeParser_handle_def ProjectionSchemaFreeOperatorMap_handle_def
        ProjectionMap_handle_def ProjectionSchemaFreeOperatorMap_resolve_type_def handle_Eq_def
        handle_Name_def example_base_def)

text \<open>
  In the other direction the prefix is also that of the failure of an unmatched
  left operand, so \<^verbatim>\<open>1 == 2\<close>, whose right-hand side is a literal, takes the
  fallback.
\<close>

lemma handle_Compare_unsupported_left:
  "ProjectionSchemaFreeParser_handle example_base
     (Compare 0 (Num 0 1) [Eq] [Num 5 2])
     \<lparr>compared_field = None, array_fields = None, complex_fields = None\<rparr>
   = handle_field_comparison example_base (Compare 0 (Num 0 1) [Eq] [Num 5 2])"
  by (simp add: ProjectionSchemaFreeParser_handle_def ProjectionSchemaFreeOperatorMap_handle_def
        ProjectionMap_handle_def unsupported_syntax_def)

subsection \<open>Negation\<close>

lemma BoolOp_single_pair:
  "ProjectionParser_handle b om (BoolOp c op vals) kw = Inr r \<Longrightarrow>
     \<exists>rs. r = JDict [(JStr (handle_boolop op), JList rs)]"
  by (auto split: sum.splits)

text \<open>
  C4 (as amended). When the operand of \<^verbatim>\<open>not\<close> translates to a fragment with
  exactly one top-level pair, the result is that pair under \<^verbatim>\<open>$not\<close>. A composite
  operand is such a fragment: \<^verbatim>\<open>not (A and B)\<close> does not fail, it yields the
  fragment of \<^verbatim>\<open>A and B\<close> under \<^verbatim>\<open>$not\<close>.
\<close>

theorem handle_UnaryOp_wraps_single_pair:
  "(ProjectionParser_handle b om operand kw = Inr (JDict [(k, v)]) \<longrightarrow>
      ProjectionParser_handle b om (UnaryOp c Not operand) kw
        = Inr (JDict [(JStr ''$not'', JDict [(k, v)])]))
   \<and> (ProjectionParser_handle b om (BoolOp c' op vals) kw = Inr r \<longrightarrow>
      ProjectionParser_handle b om (UnaryOp c Not (BoolOp c' op vals)) kw
        = Inr (JDict [(JStr ''$not'', r)]))"
proof (intro conjI impI)
  assume "ProjectionParser_handle b om operand kw = Inr (JDict [(k, v)])"
  then show "ProjectionParser_handle b om (UnaryOp c Not operand) kw
        = Inr (JDict [(JStr ''$not'', JDict [(k, v)])])"
    by simp
next
  assume r: "ProjectionParser_handle b om (BoolOp c' op vals) kw = Inr r"
  then obtain rs where "r = JDict [(JStr (handle_boolop op), JList rs)]"
    using BoolOp_single_pair by blast
  with r show "ProjectionParser_handle b om (UnaryOp c Not (BoolOp c' op vals)) kw
        = Inr (JDict [(JStr ''$not'', r)])"
    by (simp del: ProjectionParser_handle.simps(2) add: ProjectionParser_handle.simps(3))
qed

theorem handle_UnaryOp_wraps_single_pair_witness:
  "ProjectionSchemaFreeParser_handle example_base (Compare 4 (Name 4 ''a'') [Eq] [Num 9 1])
      \<lparr>compared_field = None, array_fields = None, complex_fields = None\<rparr>
     = Inr (JDict [(JStr ''$eq'', JList [JStr ''$a'', JNum 1])])
   \<and> ProjectionSchemaFreeParser_handle example_base
        (UnaryOp 0 Not (Compare 4 (Name 4 ''a'') [Eq] [Num 9 1]))
      \<lparr>compared_field = None, array_fields = None, complex_fields = None\<rparr>
     = Inr (JDict [(JStr ''$not'', JDict [(JStr ''$eq'', JList [JStr ''$a'', JNum 1])])])
   \<and> ProjectionSchemaFreeParser_handle example_base
        (BoolOp 4 Or [Compare 4 (Name 4 ''a'') [Eq] [Num 9 1]])
      \<lparr>compared_field = None, array_fields = None, complex_fields = None\<rparr>
     = Inr (JDict [(JStr ''$or'', JList [JDict [(JStr ''$eq'', JList [JStr ''$a'', JNum 1])]])])
   \<and> ProjectionSchemaFreeParser_handle example_base
        (UnaryOp 0 Not (BoolOp 4 Or [Compare 4 (Name 4 ''a'') [Eq] [Num 9 1]]))
      \<lparr>compared_field = None, array_fields = None, complex_fields = None\<rparr>
     = Inr (JDict [(JStr ''$not'',
          JDict [(JStr ''$or'', JList [JDict [(JStr ''$eq'', JList [JStr ''$a'', JNum 1])]])])])"
proof -
  let ?om = "ProjectionSchemaFreeOperatorMap_handle example_base"
  let ?kw = "\<lparr>compared_field = None, array_fields = None, complex_fields = None\<rparr>"
  let ?cmp = "Compare 4 (Name 4 ''a'') [Eq] [Num 9 1]"
  let ?eq = "JDict [(JStr ''$eq'', JList [JStr ''$a'', JNum 1])]"
  have a: "ProjectionParser_handle example_base ?om ?cmp ?kw = Inr ?eq"
    by (simp add: ProjectionSchemaFreeOperatorMap_handle_def ProjectionMap_handle_def
          ProjectionSchemaFreeOperatorMap_resolve_type_def handle_Eq_def handle_Num_def
          kw_compared_field_def kw_array_fields_def format_opt_def in_fields_def)
  then have o: "ProjectionParser_handle example_base ?om (BoolOp 4 Or [?cmp]) ?kw
      = Inr (JDict [(JStr ''$or'', JList [?eq])])"
    by simp
  from handle_UnaryOp_wraps_single_pair
         [of example_base ?om ?cmp ?kw "JStr ''$eq''" "JList [JStr ''$a'', JNum 1]" 0 4 Or "[?cmp]"
             "JDict [(JStr ''$or'', JList [?eq])]"] a o
  show ?thesis
    unfolding ProjectionSchemaFreeParser_handle_def by blast
qed

text \<open>The claim as stated fails for \<^verbatim>\<open>not (a == 1 and b == 2)\<close>, which compiles.\<close>

theorem handle_UnaryOp_composite_counterexample:
  "ProjectionSchemaFreeParser_handle example_base
     (UnaryOp 0 Not (BoolOp 5 And [Compare 5 (Name 5 ''a'') [Eq] [Num 10 1],
                                   Compare 16 (Name 16 ''b'') [Eq] [Num 21 2]]))
     \<lparr>compared_field = None, array_fields = None, complex_fields = None\<rparr>
   = Inr (JDict [(JStr ''$not'', JDict [(JStr ''$and'',
        JList [JDict [(JStr ''$eq'', JList [JStr ''$a'', JNum 1])],
               JDict [(JStr ''$eq'', JList [JStr ''$b'', JNum 2])]])])])"
  by (simp add: ProjectionSchemaFreeParser_handle_def ProjectionSchemaFreeOperatorMap_handle_def
        ProjectionMap_handle_def ProjectionSchemaFreeOperatorMap_resolve_type_def handle_Eq_def
        handle_Num_def kw_compared_field_def kw_array_fields_def format_opt_def in_fields_def)

subsection \<open>search\<close>






subsection \<open>exists\<close>

text \<open>
  Whatever the base, the left operand, the arguments and the context are, a
  comparison whose right-hand side is a call of \<^verbatim>\<open>exists\<close> raises
  \<^verbatim>\<open>TypeError\<close> once its left operand has resolved: \<^verbatim>\<open>handle_Eq\<close> passes the
  three keywords by name, \<^verbatim>\<open>ProjectionFunc.handle\<close> forwards them, and
  \<^verbatim>\<open>handle_exists(self, node)\<close> (line 200) accepts none, although the module
  docstring asks to keep the \<^verbatim>\<open>**kwargs\<close> of every handler and the sibling
  \<^verbatim>\<open>handle_regexMatch\<close> accepts them.
\<close>

lemma exists_in_any_comparison:
  "FieldName_handle b left = Inr F \<Longrightarrow>
     ProjectionSchemaFreeOperatorMap_handle b Eq left (Call c (Name c' ''exists'') args) kw
       = Inl TypeError"
  by (simp add: ProjectionSchemaFreeOperatorMap_handle_def ProjectionMap_handle_def
        ProjectionSchemaFreeOperatorMap_resolve_type_def handle_Eq_def)

text \<open>
  C6. The claim asks \<^verbatim>\<open>exists(true)\<close> on the compared field \<open>F\<close> to compile to
  \<^verbatim>\<open>{"F": {"$exists": true}}\<close>. The code does not compile it at all:
  \<^verbatim>\<open>F == exists(true)\<close> raises \<^verbatim>\<open>TypeError\<close>.
\<close>

theorem exists_comparison_raises_TypeError:
  "ProjectionSchemaFreeParser_handle example_base
     (Compare 0 (Name 0 ''F'') [Eq] [Call 5 (Name 5 ''exists'') [Name 12 ''true'']])
     \<lparr>compared_field = None, array_fields = None, complex_fields = None\<rparr>
   = Inl TypeError"
  by (simp add: ProjectionSchemaFreeParser_handle_def ProjectionSchemaFreeOperatorMap_handle_def
        ProjectionMap_handle_def ProjectionSchemaFreeOperatorMap_resolve_type_def handle_Eq_def)

text \<open>
  Only where the generic handler receives the call with no keyword argument, as
  for a value of a dict literal, is the first argument translated by the Bool
  field handler and wrapped under \<^verbatim>\<open>$exists\<close>; the name \<^verbatim>\<open>true\<close> is then rendered
  by \<^verbatim>\<open>handle_Name\<close> against the text of \<^verbatim>\<open>None\<close>.
\<close>

lemma exists_without_keywords:
  assumes "ProjectionField_handle b ProjectionBoolField a None = Inr v"
  shows "ProjectionField_handle b ProjectionGenericField (Call c (Name c' ''exists'') (a # rest)) None
           = Inr (JDict [(JStr ''$exists'', v)])"
  using assms by simp

lemma exists_without_keywords_true:
  "ProjectionField_handle example_base ProjectionGenericField
        (Call 5 (Name 5 ''exists'') [Name 12 ''true'']) None
     = Inr (JDict [(JStr ''$exists'', JDict [(JStr ''$eq'', JList [JStr ''$None'', JBool True])])])"
  by (simp add: handle_Name_def example_base_def kw_compared_field_def format_opt_def)

subsection \<open>Dict literals\<close>

lemma handle_Dict_items_fragments:
  "list_all2 (\<lambda>k s. ProjectionField_handle b ProjectionStringField k None = Inr (JStr s)) ks ss
   \<Longrightarrow> list_all2 (\<lambda>v r. ProjectionField_handle b (field_or_generic fld) v None = Inr r) vs rs
   \<Longrightarrow> handle_Dict_items b fld ks vs
         = Inr (map (\<lambda>(s, r). JDict [(JStr s, r)]) (zip ss rs))"
proof (induction ks ss arbitrary: vs rs rule: list_all2_induct)
  case Nil
  then show ?case by simp
next
  case (Cons k s ks ss)
  show ?case
  proof (cases vs)
    case Nil
    with Cons.prems show ?thesis by simp
  next
    case (Cons v vs')
    with Cons.prems obtain r rs' where rs: "rs = r # rs'"
      and v: "ProjectionField_handle b (field_or_generic fld) v None = Inr r"
      and vs': "list_all2 (\<lambda>v r. ProjectionField_handle b (field_or_generic fld) v None = Inr r) vs' rs'"
      by (auto simp: list_all2_Cons1)
    from Cons.IH [OF vs'] Cons.hyps(1) v rs Cons show ?thesis by simp
  qed
qed

text \<open>
  C8 (as amended). A dict literal translates to \<^verbatim>\<open>{"$and": [...]}\<close> with one
  fragment \<^verbatim>\<open>{key: value}\<close> per key-value pair; each key is translated as a
  string literal and each value by the declared handler or else the generic one.
  Keys and values are translated with no keyword argument, so the compared field
  path is not passed to them: the result is the same for every context, and the
  path is neither reused nor extended with the key name.
\<close>

theorem handle_Dict_fragments:
  assumes "list_all2 (\<lambda>k s. ProjectionField_handle b ProjectionStringField k None = Inr (JStr s)) ks ss"
    and "list_all2 (\<lambda>v r. ProjectionField_handle b (field_or_generic fld) v None = Inr r) vs rs"
  shows "handle_Dict b fld (Dict c ks vs) kw
           = Inr (JDict [(JStr ''$and'', JList (map (\<lambda>(s, r). JDict [(JStr s, r)]) (zip ss rs)))])"
  using handle_Dict_items_fragments [OF assms] by simp

theorem handle_Dict_fragments_witness:
  "list_all2 (\<lambda>k s. ProjectionField_handle example_base ProjectionStringField k None = Inr (JStr s))
      [Str 6 ''a'', Str 16 ''b''] [''a'', ''b'']
   \<and> list_all2 (\<lambda>v r. ProjectionField_handle example_base (field_or_generic ProjectionGenericField) v None = Inr r)
      [Str 11 ''x'', Str 21 ''y''] [JStr ''x'', JStr ''y'']
   \<and> handle_Dict example_base ProjectionGenericField
        (Dict 5 [Str 6 ''a'', Str 16 ''b''] [Str 11 ''x'', Str 21 ''y''])
        (Some \<lparr>compared_field = Some ''F'', array_fields = None, complex_fields = None\<rparr>)
     = Inr (JDict [(JStr ''$and'', JList [JDict [(JStr ''a'', JStr ''x'')],
                                          JDict [(JStr ''b'', JStr ''y'')]])])"
proof -
  have k: "list_all2 (\<lambda>k s. ProjectionField_handle example_base ProjectionStringField k None = Inr (JStr s))
      [Str 6 ''a'', Str 16 ''b''] [''a'', ''b'']"
    by (simp add: handle_Str_def kw_compared_field_def)
  have v: "list_all2 (\<lambda>v r. ProjectionField_handle example_base (field_or_generic ProjectionGenericField) v None = Inr r)
      [Str 11 ''x'', Str 21 ''y''] [JStr ''x'', JStr ''y'']"
    by (simp add: handle_Str_def kw_compared_field_def)
  from handle_Dict_fragments [OF k v, of 5
      "Some \<lparr>compared_field = Some ''F'', array_fields = None, complex_fields = None\<rparr>"] k v
  show ?thesis by simp
qed

text \<open>
  The claim as stated fails for \<^verbatim>\<open>F == {"a": "x"}\<close>: under the compared field
  \<^verbatim>\<open>F\<close> the literal \<^verbatim>\<open>"x"\<close> translates to \<^verbatim>\<open>{"$eq": ["$F", "x"]}\<close>, but as a value
  of the dict it is the bare string.
\<close>

theorem handle_Dict_compared_field_counterexample:
  "ProjectionSchemaFreeOperatorMap_handle example_base Eq (Name 0 ''F'')
     (Dict 5 [Str 6 ''a''] [Str 11 ''x''])
     \<lparr>compared_field = None, array_fields = None, complex_fields = None\<rparr>
   = Inr (JDict [(JStr ''$and'', JList [JDict [(JStr ''a'', JStr ''x'')]])])
   \<and> ProjectionSchemaFreeOperatorMap_handle example_base Eq (Name 0 ''F'') (Str 11 ''x'')
     \<lparr>compared_field = None, array_fields = None, complex_fields = None\<rparr>
   = Inr (JDict [(JStr ''$eq'', JList [JStr ''$F'', JStr ''x''])])"
  by (simp add: ProjectionSchemaFreeOperatorMap_handle_def ProjectionMap_handle_def
        ProjectionSchemaFreeOperatorMap_resolve_type_def handle_Eq_def handle_Str_def
        kw_compared_field_def kw_array_fields_def format_opt_def in_fields_def)

text \<open>A number value of a dict is rendered against the text of \<^verbatim>\<open>None\<close>.\<close>

lemma handle_Dict_number_value:
  "ProjectionSchemaFreeOperatorMap_handle example_base Eq (Name 0 ''F'')
     (Dict 5 [Str 6 ''a''] [Num 11 1])
     \<lparr>compared_field = None, array_fields = None, complex_fields = None\<rparr>
   = Inr (JDict [(JStr ''$and'', JList [JDict [(JStr ''a'',
        JDict [(JStr ''$eq'', JList [JStr ''$None'', JNum 1])])]])])"
  by (simp add: ProjectionSchemaFreeOperatorMap_handle_def ProjectionMap_handle_def
        ProjectionSchemaFreeOperatorMap_resolve_type_def handle_Eq_def handle_Str_def handle_Num_def
        kw_compared_field_def kw_array_fields_def format_opt_def in_fields_def)

end
